theory Spec2Isabelle
  imports Main
begin

section \<open>Python values, errors and string helpers\<close>

text \<open>
  The component library of \<^verbatim>\<open>components.py\<close> is string formatting over Python objects.
  A Python \<^verbatim>\<open>str\<close> is modelled as a \<^typ>\<open>string\<close> whose characters stand for code points
  below 256. Values interpolated into an f-string are either strings or integers.
\<close>

datatype pyval = PStr string | PInt int

datatype error =
    NotImplementedError string
  | KeyError string
  | TypeError
  | ValueError
  | AttributeError string
  | TemplateNotFound string

definition digit_char :: "nat \<Rightarrow> char" where
  "digit_char d = ''0123456789'' ! d"

fun nat_digits :: "nat \<Rightarrow> string" where
  "nat_digits n =
     (if n < 10 then [digit_char n] else nat_digits (n div 10) @ [digit_char (n mod 10)])"

declare nat_digits.simps [simp del]

text \<open>The decimal string of an integer, and the string that formatting a value yields.\<close>

definition int_str :: "int \<Rightarrow> string" where
  "int_str i = (if i < 0 then CHR ''-'' # nat_digits (nat (- i)) else nat_digits (nat i))"

fun str_of :: "pyval \<Rightarrow> string" where
  "str_of (PStr s) = s"
| "str_of (PInt i) = int_str i"

text \<open>
  The interpreter refuses to convert an integer to a decimal string when it has more digits
  (the sign not counted) than its limit \<^verbatim>\<open>sys.get_int_max_str_digits()\<close>, which is 4300 unless
  changed; the limit 0 switches the check off, and an interpreter without the check behaves
  as with 0 (the interpreter itself accepts only 0 or a limit of at least 640). The limit is
  the parameter \<open>lim\<close> of everything that formats.
\<close>

fun exceeds_limit :: "nat \<Rightarrow> pyval \<Rightarrow> bool" where
  "exceeds_limit lim (PStr s) = False"
| "exceeds_limit lim (PInt i) = (0 < lim \<and> lim < length (nat_digits (nat \<bar>i\<bar>)))"

text \<open>
  What \<^verbatim>\<open>{v}\<close> inside an f-string produces, \<^verbatim>\<open>format(v, "")\<close>: the string of \<open>v\<close>, or
  \<^verbatim>\<open>ValueError\<close> for an integer beyond the limit.
\<close>

definition format_value :: "nat \<Rightarrow> pyval \<Rightarrow> error + string" where
  "format_value lim v = (if exceeds_limit lim v then Inl ValueError else Inr (str_of v))"

text \<open>Truth value of an object in a condition: the empty string and zero are false.\<close>

fun truthy :: "pyval \<Rightarrow> bool" where
  "truthy (PStr s) = (s \<noteq> [])"
| "truthy (PInt i) = (i \<noteq> 0)"

text \<open>\<^verbatim>\<open>str.isspace\<close> on one code point below 256.\<close>

definition is_space :: "char \<Rightarrow> bool" where
  "is_space c =
     (let n = (of_char c :: nat)
      in (9 \<le> n \<and> n \<le> 13) \<or> (28 \<le> n \<and> n \<le> 32) \<or> n = 133 \<or> n = 160)"

text \<open>\<^verbatim>\<open>str.strip()\<close>: leading whitespace is dropped, then trailing whitespace.\<close>

definition strip :: "string \<Rightarrow> string" where
  "strip s = rev (dropWhile is_space (rev (dropWhile is_space s)))"

text \<open>The single quote that surrounds attribute values, as in \<^verbatim>\<open>class='{classes}'\<close>.\<close>

definition apos :: string where
  "apos = [CHR 0x27]"

text \<open>
  \<^verbatim>\<open>"".join(f(x) for x in xs)\<close>: the pieces are produced in order; the first one that raises
  ends the whole expression.
\<close>

fun join_gen :: "('a \<Rightarrow> error + string) \<Rightarrow> 'a list \<Rightarrow> error + string" where
  "join_gen f [] = Inr []"
| "join_gen f (x # xs) =
     (case f x of
        Inl e \<Rightarrow> Inl e
      | Inr s \<Rightarrow> (case join_gen f xs of Inl e \<Rightarrow> Inl e | Inr r \<Rightarrow> Inr (s @ r)))"

type_synonym pydict = "string \<rightharpoonup> pyval"

text \<open>\<^verbatim>\<open>d[k]\<close> on a dict.\<close>

definition getitem :: "pydict \<Rightarrow> string \<Rightarrow> error + pyval" where
  "getitem d k = (case d k of None \<Rightarrow> Inl (KeyError k) | Some v \<Rightarrow> Inr v)"

text \<open>
  An f-string is a sequence of literal text and replacement fields. It is evaluated from
  left to right: each field's expression is evaluated and its value formatted before the
  next field is looked at, and the first failure ends the evaluation. The fields of
  \<^verbatim>\<open>components.py\<close> are values at hand (\<open>Val\<close>: an attribute or a local string) and
  subscriptions of a dict (\<open>Subscript\<close>: \<^verbatim>\<open>item['href']\<close>).
\<close>

datatype fpart = Lit string | Val pyval | Subscript pydict string

fun format_part :: "nat \<Rightarrow> fpart \<Rightarrow> error + string" where
  "format_part lim (Lit s) = Inr s"
| "format_part lim (Val v) = format_value lim v"
| "format_part lim (Subscript d k) =
     (case getitem d k of Inl e \<Rightarrow> Inl e | Inr v \<Rightarrow> format_value lim v)"

definition fstring :: "nat \<Rightarrow> fpart list \<Rightarrow> error + string" where
  "fstring lim parts = join_gen (format_part lim) parts"


section \<open>BaseComponent\<close>

text \<open>
  The attribute \<^verbatim>\<open>html\<close> exists only once \<^verbatim>\<open>__init__\<close> has stored the result of
  \<^verbatim>\<open>render\<close>; before that it is \<^const>\<open>None\<close>. Subclasses are record extensions.
\<close>

record base_component =
  additional_classes :: string
  custom_classes :: string
  html :: "string option"

definition BaseComponent_render :: "'a base_component_scheme \<Rightarrow> error + string" where
  "BaseComponent_render self = Inl (NotImplementedError ''Subclasses must implement the render method'')"

text \<open>
  \<^verbatim>\<open>BaseComponent.__init__\<close>. The call \<^verbatim>\<open>self.render()\<close> is dispatched on the class of
  \<^verbatim>\<open>self\<close>; the method that the class resolves to is the parameter \<open>render\<close>.
\<close>

definition BaseComponent_init ::
  "('a base_component_scheme \<Rightarrow> error + string) \<Rightarrow> 'a base_component_scheme \<Rightarrow>
     string \<Rightarrow> string \<Rightarrow> error + 'a base_component_scheme" where
  "BaseComponent_init render self additional custom =
     (let self = self\<lparr>additional_classes := additional, custom_classes := custom\<rparr>
      in case render self of
           Inl e \<Rightarrow> Inl e
         | Inr h \<Rightarrow> Inr (self\<lparr>html := Some h\<rparr>))"

definition get_classes :: "'a base_component_scheme \<Rightarrow> string \<Rightarrow> string" where
  "get_classes self default_classes =
     (if custom_classes self \<noteq> [] then custom_classes self
      else strip (default_classes @ '' '' @ additional_classes self))"

text \<open>The method \<^verbatim>\<open>__html__\<close>.\<close>

definition dunder_html :: "'a base_component_scheme \<Rightarrow> error + string" where
  "dunder_html self = (case html self of None \<Rightarrow> Inl (AttributeError ''html'') | Some h \<Rightarrow> Inr h)"

text \<open>
  A fresh object has no attributes yet; the placeholders below are overwritten by
  \<^const>\<open>BaseComponent_init\<close> before anything reads them.
\<close>

definition BaseComponent_new :: "string \<Rightarrow> string \<Rightarrow> error + base_component" where
  "BaseComponent_new additional custom =
     BaseComponent_init BaseComponent_render
       \<lparr>additional_classes = [], custom_classes = [], html = None\<rparr> additional custom"


section \<open>Heading, Button, Text\<close>

record heading = base_component +
  heading_text :: pyval
  heading_level :: pyval

definition Heading_default_classes :: "'a heading_scheme \<Rightarrow> string" where
  "Heading_default_classes self = ''text-2xl font-bold''"

definition Heading_render :: "nat \<Rightarrow> 'a heading_scheme \<Rightarrow> error + string" where
  "Heading_render lim self =
     (let classes = get_classes self (Heading_default_classes self)
      in fstring lim
           [Lit ''<h'', Val (heading_level self), Lit ('' class='' @ apos), Val (PStr classes),
            Lit '''>'', Val (heading_text self), Lit ''</h'', Val (heading_level self),
            Lit ''>''])"

definition Heading_new :: "nat \<Rightarrow> pyval \<Rightarrow> pyval \<Rightarrow> string \<Rightarrow> string \<Rightarrow> error + heading" where
  "Heading_new lim txt lvl additional custom =
     BaseComponent_init (Heading_render lim)
       \<lparr>additional_classes = [], custom_classes = [], html = None,
        heading_text = txt, heading_level = lvl\<rparr> additional custom"

record button = base_component +
  button_text :: pyval

definition Button_default_classes :: "'a button_scheme \<Rightarrow> string" where
  "Button_default_classes self =
     ''bg-slate-500 hover:bg-slate-700 text-white font-bold py-2 px-3 rounded''"

definition Button_render :: "nat \<Rightarrow> 'a button_scheme \<Rightarrow> error + string" where
  "Button_render lim self =
     (let classes = get_classes self (Button_default_classes self)
      in fstring lim
           [Lit (''<button class='' @ apos), Val (PStr classes), Lit '''>'',
            Val (button_text self), Lit ''</button>''])"

definition Button_new :: "nat \<Rightarrow> pyval \<Rightarrow> string \<Rightarrow> string \<Rightarrow> error + button" where
  "Button_new lim txt additional custom =
     BaseComponent_init (Button_render lim)
       \<lparr>additional_classes = [], custom_classes = [], html = None, button_text = txt\<rparr>
       additional custom"

record text_component = base_component +
  text_text :: pyval

definition Text_default_classes :: "'a text_component_scheme \<Rightarrow> string" where
  "Text_default_classes self = ''text-base text-lg''"

definition Text_render :: "nat \<Rightarrow> 'a text_component_scheme \<Rightarrow> error + string" where
  "Text_render lim self =
     (let classes = get_classes self (Text_default_classes self)
      in fstring lim
           [Lit (''<p class='' @ apos), Val (PStr classes), Lit '''>'', Val (text_text self),
            Lit ''</p>''])"

definition Text_new :: "nat \<Rightarrow> pyval \<Rightarrow> string \<Rightarrow> string \<Rightarrow> error + text_component" where
  "Text_new lim txt additional custom =
     BaseComponent_init (Text_render lim)
       \<lparr>additional_classes = [], custom_classes = [], html = None, text_text = txt\<rparr>
       additional custom"


section \<open>NavBar\<close>

record navbar = base_component +
  navbar_title :: pyval
  navbar_items :: "pydict list"

definition NavBar_default_classes :: "'a navbar_scheme \<Rightarrow> string" where
  "NavBar_default_classes self = ''bg-white p-4 border-b border-slate-300''"

text \<open>The f-string of the generator expression, for one \<^verbatim>\<open>item\<close>.\<close>

definition NavBar_item_html :: "nat \<Rightarrow> pydict \<Rightarrow> error + string" where
  "NavBar_item_html lim item =
     fstring lim
       [Lit (''<li class='mr-6'><a class='text-slate-800 hover:text-slate-500' href='' @ apos),
        Subscript item ''href'', Lit '''>'', Subscript item ''text'', Lit ''</a></li>'']"

definition NavBar_render :: "nat \<Rightarrow> 'a navbar_scheme \<Rightarrow> error + string" where
  "NavBar_render lim self =
     (let classes = get_classes self (NavBar_default_classes self)
      in case join_gen (NavBar_item_html lim) (navbar_items self) of
           Inl e \<Rightarrow> Inl e
         | Inr items_html \<Rightarrow>
             fstring lim
               [Lit (''\<newline>''
                  @ ''            <nav class='' @ apos),
                Val (PStr classes),
                Lit ('''>\<newline>''
                  @ ''                <div class='flex items-center'>\<newline>''
                  @ ''                    <a class='text-2xl font-semibold mr-6 text-slate-800' href='/'>''),
                Val (navbar_title self),
                Lit (''</a>\<newline>''
                  @ ''                    <ul class='flex'>''),
                Val (PStr items_html),
                Lit (''</ul>\<newline>''
                  @ ''                </div>\<newline>''
                  @ ''            </nav>\<newline>''
                  @ ''        '')])"

definition NavBar_new ::
  "nat \<Rightarrow> pyval \<Rightarrow> pydict list \<Rightarrow> string \<Rightarrow> string \<Rightarrow> error + navbar" where
  "NavBar_new lim title items additional custom =
     BaseComponent_init (NavBar_render lim)
       \<lparr>additional_classes = [], custom_classes = [], html = None,
        navbar_title = title, navbar_items = items\<rparr> additional custom"


section \<open>Dropdown\<close>

record dropdown = base_component +
  dropdown_name :: pyval
  dropdown_options :: "pydict list"
  dropdown_label :: pyval

definition Dropdown_default_classes :: "'a dropdown_scheme \<Rightarrow> string" where
  "Dropdown_default_classes self =
     ''bg-white border border-slate-300 text-slate-800 px-3 py-2 rounded''"

definition Dropdown_option_html :: "nat \<Rightarrow> pydict \<Rightarrow> error + string" where
  "Dropdown_option_html lim option =
     fstring lim
       [Lit (''<option value='' @ apos), Subscript option ''value'', Lit '''>'',
        Subscript option ''label'', Lit ''</option>'']"

text \<open>The conditional expression assigned to \<^verbatim>\<open>label_html\<close>.\<close>

definition Dropdown_label_html :: "nat \<Rightarrow> 'a dropdown_scheme \<Rightarrow> error + string" where
  "Dropdown_label_html lim self =
     (if truthy (dropdown_label self)
      then fstring lim
             [Lit ''<label class='block text-lg font-semibold text-slate-800 mb-2'>'',
              Val (dropdown_label self), Lit ''</label>'']
      else Inr [])"

definition Dropdown_render :: "nat \<Rightarrow> 'a dropdown_scheme \<Rightarrow> error + string" where
  "Dropdown_render lim self =
     (let classes = get_classes self (Dropdown_default_classes self)
      in case join_gen (Dropdown_option_html lim) (dropdown_options self) of
           Inl e \<Rightarrow> Inl e
         | Inr options_html \<Rightarrow>
             (case Dropdown_label_html lim self of
                Inl e \<Rightarrow> Inl e
              | Inr label_html \<Rightarrow>
                  fstring lim
                    [Lit (''\<newline>''
                       @ ''            <div class='dropdown-component'>\<newline>''
                       @ ''                ''),
                     Val (PStr label_html),
                     Lit (''\<newline>''
                       @ ''                <select name='' @ apos),
                     Val (dropdown_name self),
                     Lit (''' class='' @ apos),
                     Val (PStr classes),
                     Lit ('''>\<newline>''
                       @ ''                    ''),
                     Val (PStr options_html),
                     Lit (''\<newline>''
                       @ ''                </select>\<newline>''
                       @ ''            </div>\<newline>''
                       @ ''        '')]))"

definition Dropdown_new ::
  "nat \<Rightarrow> pyval \<Rightarrow> pydict list \<Rightarrow> pyval \<Rightarrow> string \<Rightarrow> string \<Rightarrow> error + dropdown" where
  "Dropdown_new lim name options label additional custom =
     BaseComponent_init (Dropdown_render lim)
       \<lparr>additional_classes = [], custom_classes = [], html = None,
        dropdown_name = name, dropdown_options = options, dropdown_label = label\<rparr>
       additional custom"


section \<open>Slider\<close>

record slider = base_component +
  slider_name :: pyval
  slider_min_value :: pyval
  slider_max_value :: pyval
  slider_step :: pyval
  slider_value :: pyval
  slider_label :: pyval

definition Slider_default_classes :: "'a slider_scheme \<Rightarrow> string" where
  "Slider_default_classes self = ''slider bg-slate-200 appearance-none rounded h-2''"

definition Slider_label_html :: "nat \<Rightarrow> 'a slider_scheme \<Rightarrow> error + string" where
  "Slider_label_html lim self =
     (if truthy (slider_label self)
      then fstring lim
             [Lit ''<label class='block text-lg font-semibold text-slate-700 mb-2'>'',
              Val (slider_label self), Lit ''</label>'']
      else Inr [])"

definition Slider_render :: "nat \<Rightarrow> 'a slider_scheme \<Rightarrow> error + string" where
  \<open>Slider_render lim self =
     (let classes = get_classes self (Slider_default_classes self)
      in case Slider_label_html lim self of
           Inl e \<Rightarrow> Inl e
         | Inr label_html \<Rightarrow>
             (case fstring lim [Lit ''slider_'', Val (slider_name self)] of
                Inl e \<Rightarrow> Inl e
              | Inr slider_id \<Rightarrow>
                  (case fstring lim [Lit ''value_display_'', Val (slider_name self)] of
                     Inl e \<Rightarrow> Inl e
                   | Inr value_display_id \<Rightarrow>
                       fstring lim
                         [Lit (''\<newline>''
                            @ ''            <div class='slider-component'>\<newline>''
                            @ ''                ''),
                          Val (PStr label_html),
                          Lit (''\<newline>''
                            @ ''                <input type='range' id='' @ apos),
                          Val (PStr slider_id),
                          Lit (''' name='' @ apos), Val (slider_name self),
                          Lit (''' min='' @ apos), Val (slider_min_value self),
                          Lit (''' max='' @ apos), Val (slider_max_value self),
                          Lit (''' step='' @ apos), Val (slider_step self),
                          Lit (''' value='' @ apos), Val (slider_value self),
                          Lit (''' class='' @ apos), Val (PStr classes),
                          Lit (''' oninput="document.getElementById('' @ apos),
                          Val (PStr value_display_id),
                          Lit (''').innerText = this.value">\<newline>''
                            @ ''                <span id='' @ apos),
                          Val (PStr value_display_id),
                          Lit ''' class='ml-2'>'',
                          Val (slider_value self),
                          Lit (''</span>\<newline>''
                            @ ''            </div>\<newline>''
                            @ ''        '')])))\<close>

definition Slider_new ::
  "nat \<Rightarrow> pyval \<Rightarrow> pyval \<Rightarrow> pyval \<Rightarrow> pyval \<Rightarrow> pyval \<Rightarrow> pyval \<Rightarrow> string \<Rightarrow> string
     \<Rightarrow> error + slider" where
  "Slider_new lim name min_value max_value step val label additional custom =
     BaseComponent_init (Slider_render lim)
       \<lparr>additional_classes = [], custom_classes = [], html = None,
        slider_name = name, slider_min_value = min_value, slider_max_value = max_value,
        slider_step = step, slider_value = val, slider_label = label\<rparr>
       additional custom"


section \<open>Page\<close>

text \<open>
  What the list \<^verbatim>\<open>components\<close> of a page may hold: an instance of some component class,
  seen through the attributes of \<^verbatim>\<open>BaseComponent\<close>, or the class \<^verbatim>\<open>BaseComponent\<close> itself
  (the element of the default argument).
\<close>

datatype pyobj = Instance base_component | Class_BaseComponent

definition as_component :: "'a base_component_scheme \<Rightarrow> pyobj" where
  "as_component self = Instance (base_component.truncate self)"

text \<open>
  The call \<^verbatim>\<open>component.__html__()\<close>. On the class there is no bound \<^verbatim>\<open>self\<close>: the call
  lacks its required argument and raises \<^verbatim>\<open>TypeError\<close>.
\<close>

fun call_dunder_html :: "pyobj \<Rightarrow> error + string" where
  "call_dunder_html (Instance c) = dunder_html c"
| "call_dunder_html Class_BaseComponent = Inl TypeError"

text \<open>
  The template engine is outside the repository. A template maps the bindings \<^verbatim>\<open>title\<close> and
  \<^verbatim>\<open>body\<close> to the rendered document or fails; the environment maps names to templates.
\<close>

type_synonym template = "pyval \<Rightarrow> string \<Rightarrow> error + string"

type_synonym environment = "string \<rightharpoonup> template"

definition get_template :: "environment \<Rightarrow> string \<Rightarrow> error + template" where
  "get_template env name = (case env name of None \<Rightarrow> Inl (TemplateNotFound name) | Some t \<Rightarrow> Inr t)"

record page = base_component +
  page_title :: pyval
  page_components :: "pyobj list"
  page_template_name :: string

text \<open>The first statement of \<^verbatim>\<open>Page.render\<close>.\<close>

definition Page_body_content :: "'a page_scheme \<Rightarrow> error + string" where
  "Page_body_content self = join_gen call_dunder_html (page_components self)"

definition Page_render :: "environment \<Rightarrow> 'a page_scheme \<Rightarrow> error + string" where
  "Page_render env self =
     (case Page_body_content self of
        Inl e \<Rightarrow> Inl e
      | Inr body_content \<Rightarrow>
          (case get_template env (page_template_name self) of
             Inl e \<Rightarrow> Inl e
           | Inr template \<Rightarrow> template (page_title self) body_content))"

definition Page_default_template_name :: string where
  "Page_default_template_name = ''base.html''"

definition Page_default_components :: "pyobj list" where
  "Page_default_components = [Class_BaseComponent]"

definition Page_new ::
  "environment \<Rightarrow> string \<Rightarrow> pyval \<Rightarrow> pyobj list \<Rightarrow> string \<Rightarrow> string \<Rightarrow> error + page" where
  "Page_new env template_name title components additional custom =
     BaseComponent_init (Page_render env)
       \<lparr>additional_classes = [], custom_classes = [], html = None,
        page_title = title, page_components = components,
        page_template_name = template_name\<rparr> additional custom"

section \<open>Properties of the string helpers\<close>

lemma is_space_blank: "is_space CHR '' ''"
  by (simp add: is_space_def)

lemma dropWhile_keeps: "s \<noteq> [] \<Longrightarrow> \<not> P (hd s) \<Longrightarrow> dropWhile P s = s"
  by (cases s) simp_all

text \<open>
  \<^const>\<open>strip\<close> removes a whitespace-only prefix and a whitespace-only suffix, and what is
  left neither starts nor ends with whitespace.
\<close>

lemma strip_decomposition:
  "\<exists>pre post. s = pre @ strip s @ post \<and> list_all is_space pre \<and> list_all is_space post"
proof -
  let ?t = "dropWhile is_space s"
  have "s = takeWhile is_space s @ ?t"
    by simp
  moreover have "rev ?t = takeWhile is_space (rev ?t) @ dropWhile is_space (rev ?t)"
    by simp
  then have "?t = strip s @ rev (takeWhile is_space (rev ?t))"
    unfolding strip_def by (metis rev_append rev_rev_ident)
  ultimately have "s = takeWhile is_space s @ strip s @ rev (takeWhile is_space (rev ?t))"
    by metis
  moreover have "list_all is_space (takeWhile is_space s)"
    by (simp add: list_all_iff) (meson set_takeWhileD)
  moreover have "list_all is_space (rev (takeWhile is_space (rev ?t)))"
    by (simp add: list_all_iff) (meson set_takeWhileD)
  ultimately show ?thesis
    by blast
qed

lemma strip_no_trailing: "strip s \<noteq> [] \<Longrightarrow> \<not> is_space (last (strip s))"
proof -
  assume ne: "strip s \<noteq> []"
  let ?r = "dropWhile is_space (rev (dropWhile is_space s))"
  from ne have "?r \<noteq> []"
    by (simp add: strip_def)
  then have "\<not> is_space (hd ?r)"
    by (rule hd_dropWhile)
  moreover have "last (strip s) = hd ?r"
    using \<open>?r \<noteq> []\<close> by (simp add: strip_def last_rev)
  ultimately show ?thesis
    by simp
qed

lemma strip_no_leading: "strip s \<noteq> [] \<Longrightarrow> \<not> is_space (hd (strip s))"
proof -
  assume ne: "strip s \<noteq> []"
  let ?t = "dropWhile is_space s"
  let ?r = "dropWhile is_space (rev ?t)"
  from ne have r: "?r \<noteq> []"
    by (simp add: strip_def)
  have t: "?t \<noteq> []"
  proof
    assume "?t = []"
    then have "?r = []"
      by (simp only: rev.simps dropWhile.simps)
    with r show False
      by simp
  qed
  from t have nsp: "\<not> is_space (hd ?t)"
    by (rule hd_dropWhile)
  have "rev ?t = takeWhile is_space (rev ?t) @ ?r"
    by simp
  then have "?t = strip s @ rev (takeWhile is_space (rev ?t))"
    unfolding strip_def by (metis rev_append rev_rev_ident)
  with ne have "hd ?t = hd (strip s)"
    by (metis hd_append2)
  with nsp show ?thesis
    by simp
qed

lemma strip_clean:
  assumes "s \<noteq> []" and "\<not> is_space (hd s)" and "\<not> is_space (last s)"
  shows "strip s = s"
proof -
  have "dropWhile is_space s = s"
    using assms by (simp add: dropWhile_keeps)
  moreover have "dropWhile is_space (rev s) = rev s"
    using assms by (simp add: dropWhile_keeps hd_rev)
  ultimately show ?thesis
    by (simp add: strip_def)
qed

lemma strip_append_blank:
  assumes "s \<noteq> []" and "\<not> is_space (hd s)" and "\<not> is_space (last s)"
  shows "strip (s @ '' '') = s"
proof -
  have "dropWhile is_space (s @ '' '') = s @ '' ''"
    using assms by (cases s) simp_all
  moreover have "dropWhile is_space (rev s) = rev s"
    using assms by (simp add: dropWhile_keeps hd_rev)
  ultimately show ?thesis
    by (simp add: strip_def is_space_blank)
qed

lemma get_classes_bare:
  assumes "custom_classes self = []" and "additional_classes self = []"
    and "d \<noteq> []" and "\<not> is_space (hd d)" and "\<not> is_space (last d)"
  shows "get_classes self d = d"
  using assms by (simp add: get_classes_def strip_append_blank)

section \<open>Generators and constructors\<close>

lemma join_gen_all_Inr:
  "(\<And>x. x \<in> set xs \<Longrightarrow> f x = Inr (g x)) \<Longrightarrow> join_gen f xs = Inr (concat (map g xs))"
  by (induction xs) simp_all

lemma join_gen_Inr_each:
  "join_gen f xs = Inr r \<Longrightarrow> x \<in> set xs \<Longrightarrow> \<exists>s. f x = Inr s"
proof (induction xs arbitrary: r)
  case Nil
  then show ?case by simp
next
  case (Cons y ys)
  from Cons.prems(1) obtain s r' where fy: "f y = Inr s" and rest: "join_gen f ys = Inr r'"
    by (auto split: sum.splits)
  show ?case
  proof (cases "x = y")
    case True
    with fy show ?thesis by blast
  next
    case False
    with Cons.prems(2) have "x \<in> set ys" by simp
    with Cons.IH [OF rest] show ?thesis by blast
  qed
qed

lemma BaseComponent_init_html:
  "BaseComponent_init render self additional custom = Inr r \<Longrightarrow>
     \<exists>h. render (self\<lparr>additional_classes := additional, custom_classes := custom\<rparr>) = Inr h
        \<and> r = self\<lparr>additional_classes := additional, custom_classes := custom, html := Some h\<rparr>"
  by (auto simp: BaseComponent_init_def Let_def split: sum.splits)

text \<open>Whatever a constructor returns can be placed in a page: it has its \<^verbatim>\<open>html\<close>.\<close>

lemma constructed_component_html:
  "BaseComponent_init render self additional custom = Inr r \<Longrightarrow>
     \<exists>h. html r = Some h \<and> call_dunder_html (as_component r) = Inr h"
  by (auto simp: as_component_def dunder_html_def base_component.truncate_def
      dest!: BaseComponent_init_html)

lemma join_gen_instances:
  "map html cs = map Some hs \<Longrightarrow> join_gen call_dunder_html (map Instance cs) = Inr (concat hs)"
proof (induction cs arbitrary: hs)
  case Nil
  then show ?case by simp
next
  case (Cons c cs)
  then obtain h hs' where hs: "hs = h # hs'" and h: "html c = Some h"
    and rest: "map html cs = map Some hs'"
    by (cases hs) auto
  from Cons.IH [OF rest] h hs show ?case
    by (simp add: dunder_html_def)
qed


lemmas format_simps =
  nat_digits.simps digit_char_def int_str_def apos_def fstring_def format_value_def getitem_def

lemmas string_simps = strip_def is_space_def


section \<open>Formatting and its limit\<close>

lemma format_value_within: "\<not> exceeds_limit lim v \<Longrightarrow> format_value lim v = Inr (str_of v)"
  by (simp add: format_value_def)

lemma format_value_Inr: "format_value lim v = Inr s \<Longrightarrow> \<not> exceeds_limit lim v \<and> s = str_of v"
  by (simp add: format_value_def split: if_splits)

lemma format_value_no_limit: "format_value 0 v = Inr (str_of v)"
  by (cases v) (simp_all add: format_value_def)

lemma falsy_within: "\<not> truthy v \<Longrightarrow> \<not> exceeds_limit lim v"
  by (cases v) (auto simp: nat_digits.simps)

text \<open>A number of at least \<open>10 ^ k\<close> has more than \<open>k\<close> digits.\<close>

lemma nat_digits_length: "10 ^ k \<le> n \<Longrightarrow> k < length (nat_digits n)"
proof (induction k arbitrary: n)
  case 0
  show ?case
    by (subst nat_digits.simps) simp
next
  case (Suc k)
  have "(1::nat) \<le> 10 ^ k"
    by simp
  then have "(10::nat) \<le> 10 ^ Suc k"
    by simp
  with Suc.prems have big: "\<not> n < 10"
    by linarith
  from Suc.prems have "10 ^ k \<le> n div 10"
    by (simp add: less_eq_div_iff_mult_less_eq)
  then have "k < length (nat_digits (n div 10))"
    by (rule Suc.IH)
  with big show ?case
    by (subst nat_digits.simps) simp
qed

text \<open>An integer of more digits than a positive limit does not format.\<close>

lemma format_value_beyond_limit: "0 < lim \<Longrightarrow> format_value lim (PInt (10 ^ lim)) = Inl ValueError"
proof -
  assume pos: "0 < lim"
  have "lim < length (nat_digits (10 ^ lim))"
    by (rule nat_digits_length) (rule order_refl)
  with pos show ?thesis
    by (simp add: format_value_def nat_power_eq)
qed

text \<open>With the interpreter's default limit, an integer of 4301 digits does not format.\<close>

lemma format_value_beyond_default: "format_value 4300 (PInt (10 ^ 4300)) = Inl ValueError"
  by (rule format_value_beyond_limit) (rule zero_less_numeral)

lemma fstring_Inr_Val:
  "fstring lim parts = Inr s \<Longrightarrow> Val v \<in> set parts \<Longrightarrow> \<not> exceeds_limit lim v"
proof -
  assume "fstring lim parts = Inr s" and "Val v \<in> set parts"
  then obtain t where "format_part lim (Val v) = Inr t"
    unfolding fstring_def by (blast dest: join_gen_Inr_each)
  then show ?thesis
    by (simp add: format_value_def split: if_splits)
qed

lemma Heading_render_beyond_limit:
  "exceeds_limit lim (heading_level self) \<Longrightarrow> Heading_render lim self = Inl ValueError"
  by (simp add: Heading_render_def fstring_def format_value_def Let_def)

lemma NavBar_item_html_Inr:
  "''href'' \<in> dom item \<Longrightarrow> ''text'' \<in> dom item \<Longrightarrow>
   \<not> exceeds_limit lim (the (item ''href'')) \<Longrightarrow> \<not> exceeds_limit lim (the (item ''text'')) \<Longrightarrow>
     NavBar_item_html lim item =
       Inr (''<li class='mr-6'><a class='text-slate-800 hover:text-slate-500' href='' @ apos
            @ str_of (the (item ''href'')) @ apos @ ''>''
            @ str_of (the (item ''text'')) @ ''</a></li>'')"
  by (auto simp: NavBar_item_html_def fstring_def getitem_def format_value_def apos_def)

lemma NavBar_item_html_keys:
  assumes "NavBar_item_html lim item = Inr s"
  shows "''href'' \<in> dom item \<and> ''text'' \<in> dom item
    \<and> \<not> exceeds_limit lim (the (item ''href'')) \<and> \<not> exceeds_limit lim (the (item ''text''))"
proof -
  let ?parts = "[Lit (''<li class='mr-6'><a class='text-slate-800 hover:text-slate-500' href='' @ apos),
        Subscript item ''href'', Lit '''>'', Subscript item ''text'', Lit ''</a></li>'']"
  from assms have ok: "join_gen (format_part lim) ?parts = Inr s"
    by (simp only: NavBar_item_html_def fstring_def)
  have "\<exists>t. format_part lim (Subscript item ''href'') = Inr t"
    by (rule join_gen_Inr_each [OF ok]) simp
  moreover have "\<exists>t. format_part lim (Subscript item ''text'') = Inr t"
    by (rule join_gen_Inr_each [OF ok]) simp
  ultimately show ?thesis
    by (auto simp: getitem_def format_value_def split: option.splits if_splits)
qed

text \<open>\<^verbatim>\<open>NavBar.render\<close> with the f-string of its return statement evaluated.\<close>

lemma NavBar_render_markup:
  "NavBar_render lim self =
     (case join_gen (NavBar_item_html lim) (navbar_items self) of
        Inl e \<Rightarrow> Inl e
      | Inr items_html \<Rightarrow>
          if exceeds_limit lim (navbar_title self) then Inl ValueError
          else
            Inr (''\<newline>''
              @ ''            <nav class='' @ apos @ get_classes self (NavBar_default_classes self)
              @ apos @ ''>\<newline>''
              @ ''                <div class='flex items-center'>\<newline>''
              @ ''                    <a class='text-2xl font-semibold mr-6 text-slate-800' href='/'>''
              @ str_of (navbar_title self) @ ''</a>\<newline>''
              @ ''                    <ul class='flex'>'' @ items_html @ ''</ul>\<newline>''
              @ ''                </div>\<newline>''
              @ ''            </nav>\<newline>''
              @ ''        ''))"
  by (simp add: NavBar_render_def fstring_def format_value_def apos_def Let_def split: sum.split)


section \<open>Class resolution\<close>

text \<open>
  Claim C1. Whenever \<^verbatim>\<open>custom_classes\<close> is a non-empty string, \<^verbatim>\<open>get_classes\<close> returns it
  unchanged, whatever the default classes and \<^verbatim>\<open>additional_classes\<close> are; this holds for
  every subclass, since \<open>self\<close> ranges over all extensions of the base record. The six
  classes that put a class attribute into their markup then render \<^verbatim>\<open>class='...'\<close> with
  exactly \<^verbatim>\<open>custom_classes\<close> between the quotes, provided their other fields format
  (for \<^verbatim>\<open>NavBar\<close> and \<^verbatim>\<open>Dropdown\<close>: the items or options and the label have produced their
  markup). \<^verbatim>\<open>Page.render\<close> never calls \<^verbatim>\<open>get_classes\<close> and puts no class attribute anywhere.
\<close>

theorem custom_classes_override:
  \<open>(custom_classes self \<noteq> [] \<longrightarrow> get_classes self default_classes = custom_classes self)
   \<and> (custom_classes h \<noteq> []
        \<and> \<not> exceeds_limit lim (heading_level h) \<and> \<not> exceeds_limit lim (heading_text h) \<longrightarrow>
        Heading_render lim h =
          Inr (''<h'' @ str_of (heading_level h) @ '' class='' @ apos @ custom_classes h @ apos
               @ ''>'' @ str_of (heading_text h) @ ''</h'' @ str_of (heading_level h) @ ''>''))
   \<and> (custom_classes b \<noteq> [] \<and> \<not> exceeds_limit lim (button_text b) \<longrightarrow>
        Button_render lim b =
          Inr (''<button class='' @ apos @ custom_classes b @ apos @ ''>''
               @ str_of (button_text b) @ ''</button>''))
   \<and> (custom_classes t \<noteq> [] \<and> \<not> exceeds_limit lim (text_text t) \<longrightarrow>
        Text_render lim t =
          Inr (''<p class='' @ apos @ custom_classes t @ apos @ ''>''
               @ str_of (text_text t) @ ''</p>''))
   \<and> (custom_classes n \<noteq> []
        \<and> join_gen (NavBar_item_html lim) (navbar_items n) = Inr items_html
        \<and> \<not> exceeds_limit lim (navbar_title n) \<longrightarrow>
        NavBar_render lim n =
          Inr (''\<newline>''
            @ ''            <nav class='' @ apos @ custom_classes n @ apos @ ''>\<newline>''
            @ ''                <div class='flex items-center'>\<newline>''
            @ ''                    <a class='text-2xl font-semibold mr-6 text-slate-800' href='/'>''
            @ str_of (navbar_title n) @ ''</a>\<newline>''
            @ ''                    <ul class='flex'>'' @ items_html @ ''</ul>\<newline>''
            @ ''                </div>\<newline>''
            @ ''            </nav>\<newline>''
            @ ''        ''))
   \<and> (custom_classes d \<noteq> []
        \<and> join_gen (Dropdown_option_html lim) (dropdown_options d) = Inr options_html
        \<and> Dropdown_label_html lim d = Inr label_html
        \<and> \<not> exceeds_limit lim (dropdown_name d) \<longrightarrow>
        Dropdown_render lim d =
          Inr (''\<newline>''
            @ ''            <div class='dropdown-component'>\<newline>''
            @ ''                '' @ label_html @ ''\<newline>''
            @ ''                <select name='' @ apos @ str_of (dropdown_name d) @ apos
            @ '' class='' @ apos @ custom_classes d @ apos @ ''>\<newline>''
            @ ''                    '' @ options_html @ ''\<newline>''
            @ ''                </select>\<newline>''
            @ ''            </div>\<newline>''
            @ ''        ''))
   \<and> (custom_classes s \<noteq> []
        \<and> Slider_label_html lim s = Inr slider_label_html
        \<and> \<not> exceeds_limit lim (slider_name s) \<and> \<not> exceeds_limit lim (slider_min_value s)
        \<and> \<not> exceeds_limit lim (slider_max_value s) \<and> \<not> exceeds_limit lim (slider_step s)
        \<and> \<not> exceeds_limit lim (slider_value s) \<longrightarrow>
        Slider_render lim s =
          Inr (''\<newline>''
            @ ''            <div class='slider-component'>\<newline>''
            @ ''                '' @ slider_label_html @ ''\<newline>''
            @ ''                <input type='range' id='' @ apos
            @ ''slider_'' @ str_of (slider_name s) @ apos
            @ '' name='' @ apos @ str_of (slider_name s) @ apos
            @ '' min='' @ apos @ str_of (slider_min_value s) @ apos
            @ '' max='' @ apos @ str_of (slider_max_value s) @ apos
            @ '' step='' @ apos @ str_of (slider_step s) @ apos
            @ '' value='' @ apos @ str_of (slider_value s) @ apos
            @ '' class='' @ apos @ custom_classes s @ apos
            @ '' oninput="document.getElementById('' @ apos
            @ ''value_display_'' @ str_of (slider_name s) @ apos
            @ '').innerText = this.value">\<newline>''
            @ ''                <span id='' @ apos @ ''value_display_'' @ str_of (slider_name s) @ apos
            @ '' class='ml-2'>'' @ str_of (slider_value s) @ ''</span>\<newline>''
            @ ''            </div>\<newline>''
            @ ''        ''))\<close>
  by (simp add: get_classes_def Heading_render_def Button_render_def Text_render_def
      NavBar_render_def Dropdown_render_def Slider_render_def fstring_def format_value_def
      apos_def Let_def)

theorem custom_classes_override_witness:
  \<open>''my-class'' \<noteq> []
   \<and> get_classes \<lparr>additional_classes = ''mt-4'', custom_classes = ''my-class'', html = None\<rparr>
        ''text-2xl font-bold'' = ''my-class''
   \<and> Heading_render 4300 \<lparr>additional_classes = ''mt-4'', custom_classes = ''my-class'',
        html = None, heading_text = PStr ''Hi'', heading_level = PInt 3\<rparr>
      = Inr ''<h3 class='my-class'>Hi</h3>''
   \<and> Button_render 4300 \<lparr>additional_classes = ''mt-4'', custom_classes = ''my-class'',
        html = None, button_text = PStr ''Go''\<rparr>
      = Inr ''<button class='my-class'>Go</button>''
   \<and> Text_render 4300 \<lparr>additional_classes = ''mt-4'', custom_classes = ''my-class'',
        html = None, text_text = PStr ''Hi''\<rparr>
      = Inr ''<p class='my-class'>Hi</p>''
   \<and> NavBar_render 4300 \<lparr>additional_classes = ''mt-4'', custom_classes = ''my-class'',
        html = None, navbar_title = PStr ''Site'',
        navbar_items = [[''href'' \<mapsto> PStr ''/a'', ''text'' \<mapsto> PStr ''A'']]\<rparr>
      = Inr (''\<newline>''
          @ ''            <nav class='my-class'>\<newline>''
          @ ''                <div class='flex items-center'>\<newline>''
          @ ''                    <a class='text-2xl font-semibold mr-6 text-slate-800' href='/'>Site</a>\<newline>''
          @ ''                    <ul class='flex'><li class='mr-6'><a class='text-slate-800 hover:text-slate-500' href='/a'>A</a></li></ul>\<newline>''
          @ ''                </div>\<newline>''
          @ ''            </nav>\<newline>''
          @ ''        '')
   \<and> Dropdown_render 4300 \<lparr>additional_classes = ''mt-4'', custom_classes = ''my-class'',
        html = None, dropdown_name = PStr ''size'',
        dropdown_options = [[''value'' \<mapsto> PInt 1, ''label'' \<mapsto> PStr ''One'']],
        dropdown_label = PStr ''''\<rparr>
      = Inr (''\<newline>''
          @ ''            <div class='dropdown-component'>\<newline>''
          @ ''                \<newline>''
          @ ''                <select name='size' class='my-class'>\<newline>''
          @ ''                    <option value='1'>One</option>\<newline>''
          @ ''                </select>\<newline>''
          @ ''            </div>\<newline>''
          @ ''        '')
   \<and> Slider_render 4300 \<lparr>additional_classes = ''mt-4'', custom_classes = ''my-class'',
        html = None, slider_name = PStr ''vol'', slider_min_value = PInt 0,
        slider_max_value = PInt 100, slider_step = PInt 1, slider_value = PInt 50,
        slider_label = PStr ''''\<rparr>
      = Inr (''\<newline>''
          @ ''            <div class='slider-component'>\<newline>''
          @ ''                \<newline>''
          @ ''                <input type='range' id='slider_vol' name='vol' min='0' max='100' step='1' value='50' class='my-class' oninput="document.getElementById('value_display_vol').innerText = this.value">\<newline>''
          @ ''                <span id='value_display_vol' class='ml-2'>50</span>\<newline>''
          @ ''            </div>\<newline>''
          @ ''        '')\<close>
  using custom_classes_override
    [where lim = 4300
       and self = "\<lparr>additional_classes = ''mt-4'', custom_classes = ''my-class'', html = None\<rparr>"
       and default_classes = "''text-2xl font-bold''"
       and h = "\<lparr>additional_classes = ''mt-4'', custom_classes = ''my-class'', html = None,
                 heading_text = PStr ''Hi'', heading_level = PInt 3\<rparr>"
       and b = "\<lparr>additional_classes = ''mt-4'', custom_classes = ''my-class'', html = None,
                 button_text = PStr ''Go''\<rparr>"
       and t = "\<lparr>additional_classes = ''mt-4'', custom_classes = ''my-class'', html = None,
                 text_text = PStr ''Hi''\<rparr>"
       and n = "\<lparr>additional_classes = ''mt-4'', custom_classes = ''my-class'', html = None,
                 navbar_title = PStr ''Site'',
                 navbar_items = [[''href'' \<mapsto> PStr ''/a'', ''text'' \<mapsto> PStr ''A'']]\<rparr>"
       and items_html = "''<li class='mr-6'><a class='text-slate-800 hover:text-slate-500' href='/a'>A</a></li>''"
       and d = "\<lparr>additional_classes = ''mt-4'', custom_classes = ''my-class'', html = None,
                 dropdown_name = PStr ''size'',
                 dropdown_options = [[''value'' \<mapsto> PInt 1, ''label'' \<mapsto> PStr ''One'']],
                 dropdown_label = PStr ''''\<rparr>"
       and options_html = "''<option value='1'>One</option>''"
       and label_html = "''''"
       and s = "\<lparr>additional_classes = ''mt-4'', custom_classes = ''my-class'', html = None,
                 slider_name = PStr ''vol'', slider_min_value = PInt 0, slider_max_value = PInt 100,
                 slider_step = PInt 1, slider_value = PInt 50, slider_label = PStr ''''\<rparr>"
       and slider_label_html = "''''"]
  by (simp add: NavBar_item_html_def Dropdown_option_html_def Dropdown_label_html_def
      Slider_label_html_def format_simps)

text \<open>
  Claim C2. When \<^verbatim>\<open>custom_classes\<close> is the empty string, \<^verbatim>\<open>get_classes\<close> returns the default
  classes, one space and \<^verbatim>\<open>additional_classes\<close>, stripped. Stripping is trimming: the
  result is that string without a whitespace-only prefix and a whitespace-only suffix, and
  it neither starts nor ends with whitespace.
\<close>

theorem get_classes_merge:
  assumes "custom_classes self = []"
  shows "get_classes self default_classes = strip (default_classes @ '' '' @ additional_classes self)
    \<and> (\<exists>pre post.
          default_classes @ '' '' @ additional_classes self
            = pre @ get_classes self default_classes @ post
          \<and> list_all is_space pre \<and> list_all is_space post)
    \<and> (get_classes self default_classes = []
        \<or> \<not> is_space (hd (get_classes self default_classes))
          \<and> \<not> is_space (last (get_classes self default_classes)))"
proof -
  let ?s = "default_classes @ '' '' @ additional_classes self"
  have eq: "get_classes self default_classes = strip ?s"
    using assms by (simp add: get_classes_def)
  moreover have "\<exists>pre post. ?s = pre @ strip ?s @ post \<and> list_all is_space pre \<and> list_all is_space post"
    by (rule strip_decomposition)
  moreover have "strip ?s = [] \<or> \<not> is_space (hd (strip ?s)) \<and> \<not> is_space (last (strip ?s))"
    using strip_no_leading [of ?s] strip_no_trailing [of ?s] by blast
  ultimately show ?thesis
    by simp
qed

theorem get_classes_merge_witness:
  "custom_classes \<lparr>additional_classes = '' mt-4  px-2 '', custom_classes = [], html = None\<rparr> = []
   \<and> get_classes \<lparr>additional_classes = '' mt-4  px-2 '', custom_classes = [], html = None\<rparr>
         ''text-2xl font-bold''
       = strip (''text-2xl font-bold'' @ '' '' @ '' mt-4  px-2 '')
   \<and> get_classes \<lparr>additional_classes = '' mt-4  px-2 '', custom_classes = [], html = None\<rparr>
         ''text-2xl font-bold''
       = ''text-2xl font-bold  mt-4  px-2''"
  using get_classes_merge
    [of "\<lparr>additional_classes = '' mt-4  px-2 '', custom_classes = [], html = None\<rparr>"
        "''text-2xl font-bold''"]
  by (simp add: string_simps)

text \<open>
  Claim C10. With \<^verbatim>\<open>custom_classes\<close> and \<^verbatim>\<open>additional_classes\<close> both empty, each of the six
  classes that define \<^verbatim>\<open>default_classes\<close> resolves to exactly its default classes: the
  space appended before the empty \<^verbatim>\<open>additional_classes\<close> is stripped again, and no default
  starts or ends with whitespace.
\<close>

theorem get_classes_defaults_only:
  "(additional_classes h = [] \<and> custom_classes h = [] \<longrightarrow>
      get_classes h (Heading_default_classes h) = Heading_default_classes h)
   \<and> (additional_classes b = [] \<and> custom_classes b = [] \<longrightarrow>
      get_classes b (Button_default_classes b) = Button_default_classes b)
   \<and> (additional_classes t = [] \<and> custom_classes t = [] \<longrightarrow>
      get_classes t (Text_default_classes t) = Text_default_classes t)
   \<and> (additional_classes n = [] \<and> custom_classes n = [] \<longrightarrow>
      get_classes n (NavBar_default_classes n) = NavBar_default_classes n)
   \<and> (additional_classes d = [] \<and> custom_classes d = [] \<longrightarrow>
      get_classes d (Dropdown_default_classes d) = Dropdown_default_classes d)
   \<and> (additional_classes s = [] \<and> custom_classes s = [] \<longrightarrow>
      get_classes s (Slider_default_classes s) = Slider_default_classes s)"
  by (simp add: get_classes_bare Heading_default_classes_def Button_default_classes_def
      Text_default_classes_def NavBar_default_classes_def Dropdown_default_classes_def
      Slider_default_classes_def is_space_def)

theorem get_classes_defaults_only_witness:
  "get_classes \<lparr>additional_classes = [], custom_classes = [], html = None,
       heading_text = PStr ''Hi'', heading_level = PInt 1\<rparr> ''text-2xl font-bold''
     = ''text-2xl font-bold''
   \<and> get_classes \<lparr>additional_classes = [], custom_classes = [], html = None,
       button_text = PStr ''Go''\<rparr>
       ''bg-slate-500 hover:bg-slate-700 text-white font-bold py-2 px-3 rounded''
     = ''bg-slate-500 hover:bg-slate-700 text-white font-bold py-2 px-3 rounded''
   \<and> get_classes \<lparr>additional_classes = [], custom_classes = [], html = None,
       text_text = PStr ''Hi''\<rparr> ''text-base text-lg''
     = ''text-base text-lg''
   \<and> get_classes \<lparr>additional_classes = [], custom_classes = [], html = None,
       navbar_title = PStr ''Site'', navbar_items = []\<rparr>
       ''bg-white p-4 border-b border-slate-300''
     = ''bg-white p-4 border-b border-slate-300''
   \<and> get_classes \<lparr>additional_classes = [], custom_classes = [], html = None,
       dropdown_name = PStr ''size'', dropdown_options = [], dropdown_label = PStr ''''\<rparr>
       ''bg-white border border-slate-300 text-slate-800 px-3 py-2 rounded''
     = ''bg-white border border-slate-300 text-slate-800 px-3 py-2 rounded''
   \<and> get_classes \<lparr>additional_classes = [], custom_classes = [], html = None,
       slider_name = PStr ''vol'', slider_min_value = PInt 0, slider_max_value = PInt 100,
       slider_step = PInt 1, slider_value = PInt 50, slider_label = PStr ''''\<rparr>
       ''slider bg-slate-200 appearance-none rounded h-2''
     = ''slider bg-slate-200 appearance-none rounded h-2''"
  using get_classes_defaults_only
    [where h = "\<lparr>additional_classes = [], custom_classes = [], html = None,
                 heading_text = PStr ''Hi'', heading_level = PInt 1\<rparr>"
       and b = "\<lparr>additional_classes = [], custom_classes = [], html = None,
                 button_text = PStr ''Go''\<rparr>"
       and t = "\<lparr>additional_classes = [], custom_classes = [], html = None,
                 text_text = PStr ''Hi''\<rparr>"
       and n = "\<lparr>additional_classes = [], custom_classes = [], html = None,
                 navbar_title = PStr ''Site'', navbar_items = []\<rparr>"
       and d = "\<lparr>additional_classes = [], custom_classes = [], html = None,
                 dropdown_name = PStr ''size'', dropdown_options = [],
                 dropdown_label = PStr ''''\<rparr>"
       and s = "\<lparr>additional_classes = [], custom_classes = [], html = None,
                 slider_name = PStr ''vol'', slider_min_value = PInt 0,
                 slider_max_value = PInt 100, slider_step = PInt 1, slider_value = PInt 50,
                 slider_label = PStr ''''\<rparr>"]
  by (simp add: Heading_default_classes_def Button_default_classes_def
      Text_default_classes_def NavBar_default_classes_def Dropdown_default_classes_def
      Slider_default_classes_def)


section \<open>Construction of the abstract base\<close>

text \<open>
  Claim C5. Constructing \<^verbatim>\<open>BaseComponent\<close> fails with \<^verbatim>\<open>NotImplementedError\<close>, and so
  does the construction of any subclass instance \<open>self\<close> whose \<^verbatim>\<open>render\<close> is still the one
  of the base class. The failure happens inside the constructor: \<^verbatim>\<open>__init__\<close> calls
  \<^verbatim>\<open>render\<close> on the object with both class attributes stored, and fails with the error
  of that call.
\<close>

theorem BaseComponent_not_implemented:
  "BaseComponent_new additional custom
     = Inl (NotImplementedError ''Subclasses must implement the render method'')
   \<and> BaseComponent_init BaseComponent_render self additional custom
     = Inl (NotImplementedError ''Subclasses must implement the render method'')
   \<and> (BaseComponent_init render self additional custom = Inl e
        \<longleftrightarrow> render (self\<lparr>additional_classes := additional, custom_classes := custom\<rparr>) = Inl e)"
  by (simp add: BaseComponent_new_def BaseComponent_init_def BaseComponent_render_def Let_def
      split: sum.split)

theorem BaseComponent_not_implemented_witness:
  "BaseComponent_new ''mt-4'' ''''
     = Inl (NotImplementedError ''Subclasses must implement the render method'')
   \<and> BaseComponent_init BaseComponent_render
       \<lparr>additional_classes = [], custom_classes = [], html = None, button_text = PStr ''Go''\<rparr>
       ''mt-4'' ''''
     = Inl (NotImplementedError ''Subclasses must implement the render method'')"
  using BaseComponent_not_implemented
    [where additional = "''mt-4''" and custom = "''''"
       and self = "\<lparr>additional_classes = [], custom_classes = [], html = None,
                     button_text = PStr ''Go''\<rparr>"]
  by simp

section \<open>Page\<close>

text \<open>
  Claim C3. For components \<open>cs\<close> that are already rendered, with HTML strings \<open>hs\<close> in the
  same order, \<^verbatim>\<open>Page.render\<close> computes as body the concatenation of \<open>hs\<close>, nothing in
  between, and passes it to the template as the binding \<^verbatim>\<open>body\<close>, next to \<^verbatim>\<open>title\<close>.
\<close>

theorem Page_render_body:
  assumes "page_components self = map Instance cs" and "map html cs = map Some hs"
  shows "Page_body_content self = Inr (concat hs)
    \<and> Page_render env self =
        (case get_template env (page_template_name self) of
           Inl e \<Rightarrow> Inl e
         | Inr template \<Rightarrow> template (page_title self) (concat hs))"
  using assms by (simp add: Page_render_def Page_body_content_def join_gen_instances)

theorem Page_render_body_witness:
  "Page_body_content
     \<lparr>additional_classes = [], custom_classes = [], html = None, page_title = PStr ''Home'',
      page_components =
        [Instance \<lparr>additional_classes = [], custom_classes = [], html = Some ''<h1>Hi</h1>''\<rparr>,
         Instance \<lparr>additional_classes = [], custom_classes = [], html = Some ''<p>Text</p>''\<rparr>],
      page_template_name = ''base.html''\<rparr>
     = Inr ''<h1>Hi</h1><p>Text</p>''
   \<and> Page_render
       [''base.html'' \<mapsto> (\<lambda>title body. Inr (''<title>'' @ str_of title @ ''</title><body>''
                                          @ body @ ''</body>''))]
       \<lparr>additional_classes = [], custom_classes = [], html = None, page_title = PStr ''Home'',
        page_components =
          [Instance \<lparr>additional_classes = [], custom_classes = [], html = Some ''<h1>Hi</h1>''\<rparr>,
           Instance \<lparr>additional_classes = [], custom_classes = [], html = Some ''<p>Text</p>''\<rparr>],
        page_template_name = ''base.html''\<rparr>
     = Inr ''<title>Home</title><body><h1>Hi</h1><p>Text</p></body>''"
  using Page_render_body
    [where self = "\<lparr>additional_classes = [], custom_classes = [], html = None,
                     page_title = PStr ''Home'',
                     page_components =
                       [Instance \<lparr>additional_classes = [], custom_classes = [],
                                  html = Some ''<h1>Hi</h1>''\<rparr>,
                        Instance \<lparr>additional_classes = [], custom_classes = [],
                                  html = Some ''<p>Text</p>''\<rparr>],
                     page_template_name = ''base.html''\<rparr>"
       and cs = "[\<lparr>additional_classes = [], custom_classes = [], html = Some ''<h1>Hi</h1>''\<rparr>,
                  \<lparr>additional_classes = [], custom_classes = [], html = Some ''<p>Text</p>''\<rparr>]"
       and hs = "[''<h1>Hi</h1>'', ''<p>Text</p>'']"
       and env = "[''base.html'' \<mapsto> (\<lambda>title body. Inr (''<title>'' @ str_of title
                                          @ ''</title><body>'' @ body @ ''</body>''))]"]
  by (simp add: get_template_def)

text \<open>
  Claim C4. The default of \<^verbatim>\<open>components\<close> is the one-element list holding the class
  \<^verbatim>\<open>BaseComponent\<close>. Constructing a page with it fails, whatever the template store, the
  template name, the title and the class strings are: \<^verbatim>\<open>render\<close> calls \<^verbatim>\<open>__html__\<close> on the
  class before it looks up the template. An empty list would have rendered the template
  with the empty body.
\<close>

theorem Page_default_components_fail:
  "Page_default_components = [Class_BaseComponent]
   \<and> Page_new env template_name title Page_default_components additional custom = Inl TypeError
   \<and> Page_new env template_name title [] additional custom =
       (case get_template env template_name of
          Inl e \<Rightarrow> Inl e
        | Inr template \<Rightarrow>
            (case template title [] of
               Inl e \<Rightarrow> Inl e
             | Inr h \<Rightarrow>
                 Inr \<lparr>additional_classes = additional, custom_classes = custom, html = Some h,
                      page_title = title, page_components = [],
                      page_template_name = template_name\<rparr>))"
  by (simp add: Page_default_components_def Page_new_def BaseComponent_init_def Page_render_def
      Page_body_content_def Let_def split: sum.split)

theorem Page_default_components_fail_witness:
  "Page_new [''base.html'' \<mapsto> (\<lambda>title body. Inr (''<body>'' @ body @ ''</body>''))]
     Page_default_template_name (PStr '''') Page_default_components '''' '''' = Inl TypeError
   \<and> Page_new [''base.html'' \<mapsto> (\<lambda>title body. Inr (''<body>'' @ body @ ''</body>''))]
     Page_default_template_name (PStr '''') [] '''' ''''
     = Inr \<lparr>additional_classes = [], custom_classes = [], html = Some ''<body></body>'',
            page_title = PStr '''', page_components = [], page_template_name = ''base.html''\<rparr>"
  using Page_default_components_fail
    [where env = "[''base.html'' \<mapsto> (\<lambda>title body. Inr (''<body>'' @ body @ ''</body>''))]"
       and template_name = Page_default_template_name and title = "PStr ''''"
       and additional = "''''" and custom = "''''"]
  by (simp add: get_template_def Page_default_template_name_def)


section \<open>NavBar, Dropdown and Slider markup\<close>

text \<open>
  Claim C6. \<^verbatim>\<open>NavBar.render\<close> returns exactly when the title formats and every item has the
  keys \<^verbatim>\<open>href\<close> and \<^verbatim>\<open>text\<close> with values that format. The content of the \<^verbatim>\<open>ul\<close> element is
  then one \<^verbatim>\<open>li\<close> element per item, in the order of the items, each holding an \<^verbatim>\<open>a\<close>
  element with that item's \<^verbatim>\<open>href\<close> as its \<^verbatim>\<open>href\<close> attribute and that item's \<^verbatim>\<open>text\<close> as
  its text. The values are interpolated as they are.
\<close>

theorem NavBar_render_items:
  "((\<exists>h. NavBar_render lim self = Inr h) \<longleftrightarrow>
      \<not> exceeds_limit lim (navbar_title self)
      \<and> (\<forall>item \<in> set (navbar_items self).
            ''href'' \<in> dom item \<and> ''text'' \<in> dom item
            \<and> \<not> exceeds_limit lim (the (item ''href''))
            \<and> \<not> exceeds_limit lim (the (item ''text''))))
   \<and> (\<not> exceeds_limit lim (navbar_title self)
      \<and> (\<forall>item \<in> set (navbar_items self).
            ''href'' \<in> dom item \<and> ''text'' \<in> dom item
            \<and> \<not> exceeds_limit lim (the (item ''href''))
            \<and> \<not> exceeds_limit lim (the (item ''text''))) \<longrightarrow>
      NavBar_render lim self =
        Inr (''\<newline>''
          @ ''            <nav class='' @ apos @ get_classes self (NavBar_default_classes self)
          @ apos @ ''>\<newline>''
          @ ''                <div class='flex items-center'>\<newline>''
          @ ''                    <a class='text-2xl font-semibold mr-6 text-slate-800' href='/'>''
          @ str_of (navbar_title self) @ ''</a>\<newline>''
          @ ''                    <ul class='flex'>''
          @ concat (map (\<lambda>item.
                ''<li class='mr-6'><a class='text-slate-800 hover:text-slate-500' href='' @ apos
                @ str_of (the (item ''href'')) @ apos @ ''>''
                @ str_of (the (item ''text'')) @ ''</a></li>'') (navbar_items self))
          @ ''</ul>\<newline>''
          @ ''                </div>\<newline>''
          @ ''            </nav>\<newline>''
          @ ''        ''))"
proof -
  let ?items = "\<forall>item \<in> set (navbar_items self).
            ''href'' \<in> dom item \<and> ''text'' \<in> dom item
            \<and> \<not> exceeds_limit lim (the (item ''href''))
            \<and> \<not> exceeds_limit lim (the (item ''text''))"
  let ?title = "\<not> exceeds_limit lim (navbar_title self)"
  let ?li = "\<lambda>item. ''<li class='mr-6'><a class='text-slate-800 hover:text-slate-500' href='' @ apos
            @ str_of (the (item ''href'')) @ apos @ ''>''
            @ str_of (the (item ''text'')) @ ''</a></li>''"
  have ok: "join_gen (NavBar_item_html lim) (navbar_items self)
      = Inr (concat (map ?li (navbar_items self)))" if ?items
    using that by (intro join_gen_all_Inr NavBar_item_html_Inr) simp_all
  have needed: "?title \<and> ?items" if returns: "NavBar_render lim self = Inr h" for h
  proof -
    from returns obtain r where join: "join_gen (NavBar_item_html lim) (navbar_items self) = Inr r"
      by (cases "join_gen (NavBar_item_html lim) (navbar_items self)")
        (simp_all add: NavBar_render_markup)
    from returns have ?title
      by (simp add: NavBar_render_markup join split: if_splits)
    moreover have ?items
    proof
      fix item
      assume "item \<in> set (navbar_items self)"
      from join_gen_Inr_each [OF join this] obtain s where "NavBar_item_html lim item = Inr s"
        by blast
      then show "''href'' \<in> dom item \<and> ''text'' \<in> dom item
          \<and> \<not> exceeds_limit lim (the (item ''href''))
          \<and> \<not> exceeds_limit lim (the (item ''text''))"
        by (rule NavBar_item_html_keys)
    qed
    ultimately show ?thesis
      by (rule conjI)
  qed
  have shape: "NavBar_render lim self =
        Inr (''\<newline>''
          @ ''            <nav class='' @ apos @ get_classes self (NavBar_default_classes self)
          @ apos @ ''>\<newline>''
          @ ''                <div class='flex items-center'>\<newline>''
          @ ''                    <a class='text-2xl font-semibold mr-6 text-slate-800' href='/'>''
          @ str_of (navbar_title self) @ ''</a>\<newline>''
          @ ''                    <ul class='flex'>''
          @ concat (map ?li (navbar_items self))
          @ ''</ul>\<newline>''
          @ ''                </div>\<newline>''
          @ ''            </nav>\<newline>''
          @ ''        '')" if ?title and ?items
    using that(1) by (simp only: NavBar_render_markup ok [OF that(2)] sum.case if_False)
  have iff: "(\<exists>h. NavBar_render lim self = Inr h) \<longleftrightarrow> ?title \<and> ?items"
  proof
    assume "\<exists>h. NavBar_render lim self = Inr h"
    then obtain h where "NavBar_render lim self = Inr h" ..
    then show "?title \<and> ?items"
      by (rule needed)
  next
    assume c: "?title \<and> ?items"
    from shape [OF conjunct1 [OF c] conjunct2 [OF c]]
    show "\<exists>h. NavBar_render lim self = Inr h"
      by (rule exI)
  qed
  have "?title \<and> ?items \<longrightarrow> NavBar_render lim self =
        Inr (''\<newline>''
          @ ''            <nav class='' @ apos @ get_classes self (NavBar_default_classes self)
          @ apos @ ''>\<newline>''
          @ ''                <div class='flex items-center'>\<newline>''
          @ ''                    <a class='text-2xl font-semibold mr-6 text-slate-800' href='/'>''
          @ str_of (navbar_title self) @ ''</a>\<newline>''
          @ ''                    <ul class='flex'>''
          @ concat (map ?li (navbar_items self))
          @ ''</ul>\<newline>''
          @ ''                </div>\<newline>''
          @ ''            </nav>\<newline>''
          @ ''        '')"
  proof
    assume c: "?title \<and> ?items"
    show "NavBar_render lim self =
        Inr (''\<newline>''
          @ ''            <nav class='' @ apos @ get_classes self (NavBar_default_classes self)
          @ apos @ ''>\<newline>''
          @ ''                <div class='flex items-center'>\<newline>''
          @ ''                    <a class='text-2xl font-semibold mr-6 text-slate-800' href='/'>''
          @ str_of (navbar_title self) @ ''</a>\<newline>''
          @ ''                    <ul class='flex'>''
          @ concat (map ?li (navbar_items self))
          @ ''</ul>\<newline>''
          @ ''                </div>\<newline>''
          @ ''            </nav>\<newline>''
          @ ''        '')"
      by (rule shape [OF conjunct1 [OF c] conjunct2 [OF c]])
  qed
  with iff show ?thesis
    by (rule conjI)
qed

theorem NavBar_render_items_witness:
  "NavBar_render 4300
     \<lparr>additional_classes = [], custom_classes = [], html = None, navbar_title = PStr ''Site'',
      navbar_items = [[''href'' \<mapsto> PStr ''/a'', ''text'' \<mapsto> PStr ''A''],
                      [''href'' \<mapsto> PStr ''/b'', ''text'' \<mapsto> PStr ''B'']]\<rparr>
   = Inr (''\<newline>''
      @ ''            <nav class='bg-white p-4 border-b border-slate-300'>\<newline>''
      @ ''                <div class='flex items-center'>\<newline>''
      @ ''                    <a class='text-2xl font-semibold mr-6 text-slate-800' href='/'>Site</a>\<newline>''
      @ ''                    <ul class='flex'>''
      @ ''<li class='mr-6'><a class='text-slate-800 hover:text-slate-500' href='/a'>A</a></li>''
      @ ''<li class='mr-6'><a class='text-slate-800 hover:text-slate-500' href='/b'>B</a></li>''
      @ ''</ul>\<newline>''
      @ ''                </div>\<newline>''
      @ ''            </nav>\<newline>''
      @ ''        '')"
  using NavBar_render_items
    [of 4300 "\<lparr>additional_classes = [], custom_classes = [], html = None,
           navbar_title = PStr ''Site'',
           navbar_items = [[''href'' \<mapsto> PStr ''/a'', ''text'' \<mapsto> PStr ''A''],
                           [''href'' \<mapsto> PStr ''/b'', ''text'' \<mapsto> PStr ''B'']]\<rparr>"]
  by (simp add: get_classes_def NavBar_default_classes_def string_simps format_simps)

text \<open>
  Claim C7. A slider renders exactly when its name, bounds, step, value and label format.
  In its markup the range input has the id \<^verbatim>\<open>slider_\<close> followed by the name, the display
  element has the id \<^verbatim>\<open>value_display_\<close> followed by the name (the same id that the
  \<^verbatim>\<open>oninput\<close> handler looks up), and the text of the display element is the value as the
  f-string formats it.
\<close>

theorem Slider_render_ids:
  \<open>((\<exists>h. Slider_render lim self = Inr h) \<longleftrightarrow>
      \<not> exceeds_limit lim (slider_name self) \<and> \<not> exceeds_limit lim (slider_min_value self)
      \<and> \<not> exceeds_limit lim (slider_max_value self) \<and> \<not> exceeds_limit lim (slider_step self)
      \<and> \<not> exceeds_limit lim (slider_value self) \<and> \<not> exceeds_limit lim (slider_label self))
   \<and> (\<not> exceeds_limit lim (slider_name self) \<and> \<not> exceeds_limit lim (slider_min_value self)
      \<and> \<not> exceeds_limit lim (slider_max_value self) \<and> \<not> exceeds_limit lim (slider_step self)
      \<and> \<not> exceeds_limit lim (slider_value self) \<and> \<not> exceeds_limit lim (slider_label self) \<longrightarrow>
      Slider_render lim self =
        Inr (''\<newline>''
          @ ''            <div class='slider-component'>\<newline>''
          @ ''                ''
          @ (if truthy (slider_label self)
             then ''<label class='block text-lg font-semibold text-slate-700 mb-2'>''
                  @ str_of (slider_label self) @ ''</label>''
             else [])
          @ ''\<newline>''
          @ ''                <input type='range' id='' @ apos
          @ ''slider_'' @ str_of (slider_name self) @ apos
          @ '' name='' @ apos @ str_of (slider_name self) @ apos
          @ '' min='' @ apos @ str_of (slider_min_value self) @ apos
          @ '' max='' @ apos @ str_of (slider_max_value self) @ apos
          @ '' step='' @ apos @ str_of (slider_step self) @ apos
          @ '' value='' @ apos @ str_of (slider_value self) @ apos
          @ '' class='' @ apos @ get_classes self (Slider_default_classes self) @ apos
          @ '' oninput="document.getElementById('' @ apos
          @ ''value_display_'' @ str_of (slider_name self) @ apos
          @ '').innerText = this.value">\<newline>''
          @ ''                <span id='' @ apos
          @ ''value_display_'' @ str_of (slider_name self) @ apos
          @ '' class='ml-2'>'' @ str_of (slider_value self) @ ''</span>\<newline>''
          @ ''            </div>\<newline>''
          @ ''        ''))\<close>
proof -
  let ?ok = "\<not> exceeds_limit lim (slider_name self) \<and> \<not> exceeds_limit lim (slider_min_value self)
      \<and> \<not> exceeds_limit lim (slider_max_value self) \<and> \<not> exceeds_limit lim (slider_step self)
      \<and> \<not> exceeds_limit lim (slider_value self) \<and> \<not> exceeds_limit lim (slider_label self)"
  have needed: ?ok if "Slider_render lim self = Inr h" for h
  proof -
    from that obtain label_html where lab: "Slider_label_html lim self = Inr label_html"
      by (auto simp: Slider_render_def Let_def split: sum.splits)
    have "\<not> exceeds_limit lim (slider_label self)"
    proof (cases "truthy (slider_label self)")
      case True
      with lab show ?thesis
        by (auto simp: Slider_label_html_def dest: fstring_Inr_Val)
    next
      case False
      then show ?thesis
        by (rule falsy_within)
    qed
    moreover from that lab have "\<not> exceeds_limit lim (slider_name self)"
      "\<not> exceeds_limit lim (slider_min_value self)" "\<not> exceeds_limit lim (slider_max_value self)"
      "\<not> exceeds_limit lim (slider_step self)" "\<not> exceeds_limit lim (slider_value self)"
      by (auto simp: Slider_render_def Let_def split: sum.splits dest: fstring_Inr_Val)
    ultimately show ?thesis
      by simp
  qed
  have shape: \<open>Slider_render lim self =
        Inr (''\<newline>''
          @ ''            <div class='slider-component'>\<newline>''
          @ ''                ''
          @ (if truthy (slider_label self)
             then ''<label class='block text-lg font-semibold text-slate-700 mb-2'>''
                  @ str_of (slider_label self) @ ''</label>''
             else [])
          @ ''\<newline>''
          @ ''                <input type='range' id='' @ apos
          @ ''slider_'' @ str_of (slider_name self) @ apos
          @ '' name='' @ apos @ str_of (slider_name self) @ apos
          @ '' min='' @ apos @ str_of (slider_min_value self) @ apos
          @ '' max='' @ apos @ str_of (slider_max_value self) @ apos
          @ '' step='' @ apos @ str_of (slider_step self) @ apos
          @ '' value='' @ apos @ str_of (slider_value self) @ apos
          @ '' class='' @ apos @ get_classes self (Slider_default_classes self) @ apos
          @ '' oninput="document.getElementById('' @ apos
          @ ''value_display_'' @ str_of (slider_name self) @ apos
          @ '').innerText = this.value">\<newline>''
          @ ''                <span id='' @ apos
          @ ''value_display_'' @ str_of (slider_name self) @ apos
          @ '' class='ml-2'>'' @ str_of (slider_value self) @ ''</span>\<newline>''
          @ ''            </div>\<newline>''
          @ ''        '')\<close> if ?ok
    using that
    by (simp add: Slider_render_def Slider_label_html_def fstring_def format_value_def apos_def
        Let_def)
  from needed shape show ?thesis
    by blast
qed

theorem Slider_render_ids_witness:
  \<open>Slider_render 4300
     \<lparr>additional_classes = [], custom_classes = [], html = None,
      slider_name = PStr ''vol'', slider_min_value = PInt 0, slider_max_value = PInt 100,
      slider_step = PInt 1, slider_value = PInt 50, slider_label = PStr ''''\<rparr>
   = Inr (''\<newline>''
      @ ''            <div class='slider-component'>\<newline>''
      @ ''                \<newline>''
      @ ''                <input type='range' id='slider_vol' name='vol' min='0' max='100' step='1' value='50' class='slider bg-slate-200 appearance-none rounded h-2' oninput="document.getElementById('value_display_vol').innerText = this.value">\<newline>''
      @ ''                <span id='value_display_vol' class='ml-2'>50</span>\<newline>''
      @ ''            </div>\<newline>''
      @ ''        '')\<close>
  using Slider_render_ids
    [of 4300 "\<lparr>additional_classes = [], custom_classes = [], html = None,
           slider_name = PStr ''vol'', slider_min_value = PInt 0, slider_max_value = PInt 100,
           slider_step = PInt 1, slider_value = PInt 50, slider_label = PStr ''''\<rparr>"]
  by (simp add: get_classes_def Slider_default_classes_def string_simps format_simps)

text \<open>
  Claim C8. A \<^verbatim>\<open>NavBar\<close> without items whose title formats, and a \<^verbatim>\<open>Dropdown\<close> without
  options whose name and label format, are constructed without error; the \<^verbatim>\<open>ul\<close> element
  of the first is empty and the \<^verbatim>\<open>select\<close> element of the second holds only the
  whitespace of the template. Strings always format.
\<close>

theorem empty_items_and_options:
  "(\<not> exceeds_limit lim title \<longrightarrow>
    NavBar_new lim title [] additional custom =
     Inr \<lparr>additional_classes = additional, custom_classes = custom,
          html = Some (''\<newline>''
            @ ''            <nav class='' @ apos
            @ get_classes \<lparr>additional_classes = additional, custom_classes = custom, html = None\<rparr>
                ''bg-white p-4 border-b border-slate-300''
            @ apos @ ''>\<newline>''
            @ ''                <div class='flex items-center'>\<newline>''
            @ ''                    <a class='text-2xl font-semibold mr-6 text-slate-800' href='/'>''
            @ str_of title @ ''</a>\<newline>''
            @ ''                    <ul class='flex'></ul>\<newline>''
            @ ''                </div>\<newline>''
            @ ''            </nav>\<newline>''
            @ ''        ''),
          navbar_title = title, navbar_items = []\<rparr>)
   \<and> (\<not> exceeds_limit lim name \<and> \<not> exceeds_limit lim label \<longrightarrow>
    Dropdown_new lim name [] label additional custom =
     Inr \<lparr>additional_classes = additional, custom_classes = custom,
          html = Some (''\<newline>''
            @ ''            <div class='dropdown-component'>\<newline>''
            @ ''                ''
            @ (if truthy label
               then ''<label class='block text-lg font-semibold text-slate-800 mb-2'>''
                    @ str_of label @ ''</label>''
               else [])
            @ ''\<newline>''
            @ ''                <select name='' @ apos @ str_of name @ apos @ '' class='' @ apos
            @ get_classes \<lparr>additional_classes = additional, custom_classes = custom, html = None\<rparr>
                ''bg-white border border-slate-300 text-slate-800 px-3 py-2 rounded''
            @ apos @ ''>\<newline>''
            @ ''                    \<newline>''
            @ ''                </select>\<newline>''
            @ ''            </div>\<newline>''
            @ ''        ''),
          dropdown_name = name, dropdown_options = [], dropdown_label = label\<rparr>)
   \<and> NavBar_new lim (PStr title_text) [] additional custom \<noteq> Inl e
   \<and> Dropdown_new lim (PStr name_text) [] (PStr label_text) additional custom \<noteq> Inl e"
  by (simp add: NavBar_new_def Dropdown_new_def BaseComponent_init_def NavBar_render_def
      Dropdown_render_def Dropdown_label_html_def NavBar_default_classes_def
      Dropdown_default_classes_def get_classes_def fstring_def format_value_def apos_def Let_def)

theorem empty_items_and_options_witness:
  "NavBar_new 4300 (PStr ''Site'') [] '''' '''' =
     Inr \<lparr>additional_classes = [], custom_classes = [],
          html = Some (''\<newline>''
            @ ''            <nav class='bg-white p-4 border-b border-slate-300'>\<newline>''
            @ ''                <div class='flex items-center'>\<newline>''
            @ ''                    <a class='text-2xl font-semibold mr-6 text-slate-800' href='/'>Site</a>\<newline>''
            @ ''                    <ul class='flex'></ul>\<newline>''
            @ ''                </div>\<newline>''
            @ ''            </nav>\<newline>''
            @ ''        ''),
          navbar_title = PStr ''Site'', navbar_items = []\<rparr>
   \<and> Dropdown_new 4300 (PStr ''size'') [] (PStr '''') '''' '''' =
     Inr \<lparr>additional_classes = [], custom_classes = [],
          html = Some (''\<newline>''
            @ ''            <div class='dropdown-component'>\<newline>''
            @ ''                \<newline>''
            @ ''                <select name='size' class='bg-white border border-slate-300 text-slate-800 px-3 py-2 rounded'>\<newline>''
            @ ''                    \<newline>''
            @ ''                </select>\<newline>''
            @ ''            </div>\<newline>''
            @ ''        ''),
          dropdown_name = PStr ''size'', dropdown_options = [], dropdown_label = PStr ''''\<rparr>"
  using empty_items_and_options
    [where lim = 4300 and title = "PStr ''Site''" and name = "PStr ''size''"
       and label = "PStr ''''" and additional = "''''" and custom = "''''"]
  by (simp add: get_classes_def string_simps format_simps)

text \<open>
  Claim C9. The \<^verbatim>\<open>href\<close> attribute of the title link of a \<^verbatim>\<open>NavBar\<close> is the literal \<^verbatim>\<open>/\<close> of
  the template. The title, the items and the class strings are interpolated at other
  places of the markup, and nothing is interpolated into that attribute: whenever
  \<^verbatim>\<open>render\<close> returns, it returns the markup below, and it fails only when the items fail
  or the title does not format.
\<close>

theorem NavBar_title_href:
  "NavBar_render lim self =
     (case join_gen (NavBar_item_html lim) (navbar_items self) of
        Inl e \<Rightarrow> Inl e
      | Inr items_html \<Rightarrow>
          if exceeds_limit lim (navbar_title self) then Inl ValueError
          else
            Inr (''\<newline>''
              @ ''            <nav class='' @ apos @ get_classes self (NavBar_default_classes self)
              @ apos @ ''>\<newline>''
              @ ''                <div class='flex items-center'>\<newline>''
              @ ''                    <a class='text-2xl font-semibold mr-6 text-slate-800' href='/'>''
              @ str_of (navbar_title self) @ ''</a>\<newline>''
              @ ''                    <ul class='flex'>'' @ items_html @ ''</ul>\<newline>''
              @ ''                </div>\<newline>''
              @ ''            </nav>\<newline>''
              @ ''        ''))"
  by (simp add: NavBar_render_def fstring_def format_value_def apos_def Let_def split: sum.split)

theorem NavBar_title_href_witness:
  "NavBar_render 4300
     \<lparr>additional_classes = ''shadow'', custom_classes = ''top-bar'', html = None,
      navbar_title = PStr ''/home'',
      navbar_items = [[''href'' \<mapsto> PStr ''/docs'', ''text'' \<mapsto> PStr ''Docs'']]\<rparr>
   = Inr (''\<newline>''
      @ ''            <nav class='top-bar'>\<newline>''
      @ ''                <div class='flex items-center'>\<newline>''
      @ ''                    <a class='text-2xl font-semibold mr-6 text-slate-800' href='/'>/home</a>\<newline>''
      @ ''                    <ul class='flex'>''
      @ ''<li class='mr-6'><a class='text-slate-800 hover:text-slate-500' href='/docs'>Docs</a></li>''
      @ ''</ul>\<newline>''
      @ ''                </div>\<newline>''
      @ ''            </nav>\<newline>''
      @ ''        '')"
  using NavBar_title_href
    [of 4300 "\<lparr>additional_classes = ''shadow'', custom_classes = ''top-bar'', html = None,
           navbar_title = PStr ''/home'',
           navbar_items = [[''href'' \<mapsto> PStr ''/docs'', ''text'' \<mapsto> PStr ''Docs'']]\<rparr>"]
  by (simp add: get_classes_def NavBar_item_html_def format_simps)

end
